theory Spec2Isabelle
  imports Complex_Main
begin

section \<open>Numbers\<close>

text \<open>
  The program is TypeScript; every numeric value is an ECMAScript \<^verbatim>\<open>number\<close>.
  The model keeps the four kinds of value the language distinguishes: \<^verbatim>\<open>NaN\<close>, the
  two infinities, and the finite numbers. A finite number is carried as a real and finite
  arithmetic is exact: binary rounding, overflow of a finite result to an infinity and the
  sign of zero are not modelled. Everything else follows the language: \<^verbatim>\<open>NaN\<close> is
  absorbing and compares false with everything, \<^verbatim>\<open>Infinity - Infinity\<close>,
  \<^verbatim>\<open>0 * Infinity\<close>, \<^verbatim>\<open>0 / 0\<close> and \<^verbatim>\<open>Infinity / Infinity\<close> are
  \<^verbatim>\<open>NaN\<close>, and a nonzero finite number divided by zero is an infinity of the
  dividend's sign (zero being read as \<^verbatim>\<open>+0\<close>).
\<close>

datatype number = NaN | NInf | Fin real | PInf

instantiation number :: "{uminus, plus, minus, times, inverse, ord}"
begin

fun uminus_number :: "number \<Rightarrow> number" where
  "uminus_number NaN = NaN"
| "uminus_number NInf = PInf"
| "uminus_number (Fin a) = Fin (- a)"
| "uminus_number PInf = NInf"

fun plus_number :: "number \<Rightarrow> number \<Rightarrow> number" where
  "plus_number NaN _ = NaN"
| "plus_number _ NaN = NaN"
| "plus_number PInf NInf = NaN"
| "plus_number NInf PInf = NaN"
| "plus_number PInf _ = PInf"
| "plus_number _ PInf = PInf"
| "plus_number NInf _ = NInf"
| "plus_number _ NInf = NInf"
| "plus_number (Fin a) (Fin b) = Fin (a + b)"

definition minus_number :: "number \<Rightarrow> number \<Rightarrow> number" where
  "minus_number a b = a + (- b)"

fun times_number :: "number \<Rightarrow> number \<Rightarrow> number" where
  "times_number NaN _ = NaN"
| "times_number _ NaN = NaN"
| "times_number (Fin a) (Fin b) = Fin (a * b)"
| "times_number (Fin a) PInf = (if a = 0 then NaN else if 0 < a then PInf else NInf)"
| "times_number (Fin a) NInf = (if a = 0 then NaN else if 0 < a then NInf else PInf)"
| "times_number PInf (Fin b) = (if b = 0 then NaN else if 0 < b then PInf else NInf)"
| "times_number NInf (Fin b) = (if b = 0 then NaN else if 0 < b then NInf else PInf)"
| "times_number PInf PInf = PInf"
| "times_number NInf NInf = PInf"
| "times_number PInf NInf = NInf"
| "times_number NInf PInf = NInf"

fun divide_number :: "number \<Rightarrow> number \<Rightarrow> number" where
  "divide_number NaN _ = NaN"
| "divide_number _ NaN = NaN"
| "divide_number (Fin a) (Fin b) =
     (if b = 0 then (if a = 0 then NaN else if 0 < a then PInf else NInf)
      else Fin (a / b))"
| "divide_number (Fin a) PInf = Fin 0"
| "divide_number (Fin a) NInf = Fin 0"
| "divide_number PInf (Fin b) = (if b < 0 then NInf else PInf)"
| "divide_number NInf (Fin b) = (if b < 0 then PInf else NInf)"
| "divide_number PInf PInf = NaN"
| "divide_number PInf NInf = NaN"
| "divide_number NInf PInf = NaN"
| "divide_number NInf NInf = NaN"

definition inverse_number :: "number \<Rightarrow> number" where
  "inverse_number a = divide (Fin 1) a"

fun less_number :: "number \<Rightarrow> number \<Rightarrow> bool" where
  "less_number NaN _ = False"
| "less_number _ NaN = False"
| "less_number (Fin a) (Fin b) = (a < b)"
| "less_number NInf NInf = False"
| "less_number NInf _ = True"
| "less_number _ NInf = False"
| "less_number PInf _ = False"
| "less_number _ PInf = True"

definition less_eq_number :: "number \<Rightarrow> number \<Rightarrow> bool" where
  "less_eq_number a b = (a < b \<or> (a = b \<and> a \<noteq> NaN))"

instance ..

end

text \<open>\<^verbatim>\<open>Math.min\<close> and \<^verbatim>\<open>Math.max\<close> of two arguments: \<^verbatim>\<open>NaN\<close> if either is.\<close>

fun Math_min :: "number \<Rightarrow> number \<Rightarrow> number" where
  "Math_min NaN _ = NaN"
| "Math_min _ NaN = NaN"
| "Math_min a b = (if b < a then b else a)"

fun Math_max :: "number \<Rightarrow> number \<Rightarrow> number" where
  "Math_max NaN _ = NaN"
| "Math_max _ NaN = NaN"
| "Math_max a b = (if a < b then b else a)"

text \<open>
  Reading element \<open>i\<close> of a \<^verbatim>\<open>number[]\<close>, as the destructuring
  \<^verbatim>\<open>const [lng, lat] = coord\<close> does. Past the end the language yields
  \<^verbatim>\<open>undefined\<close>; every use of these two variables in the program is arithmetic or
  \<^verbatim>\<open>Math.min\<close>/\<^verbatim>\<open>Math.max\<close>, which convert \<^verbatim>\<open>undefined\<close> to
  \<^verbatim>\<open>NaN\<close>, so the model yields \<^verbatim>\<open>NaN\<close> at once.
\<close>

definition elem :: "number list \<Rightarrow> nat \<Rightarrow> number" where
  "elem coord i = (if i < length coord then coord ! i else NaN)"

section \<open>Data model (types/index.ts, lib/map-utils.ts)\<close>

record Coordinates =
  lat :: number
  lng :: number

record MapBounds =
  minLat :: number
  maxLat :: number
  minLng :: number
  maxLng :: number
  width :: number
  height :: number

text \<open>
  The \<^verbatim>\<open>{ x: number; y: number }\<close> objects of map-utils.ts; the fields are \<open>px\<close>
  and \<open>py\<close> here, so that \<open>x\<close> and \<open>y\<close> stay free for variables.
\<close>

record point =
  px :: number
  py :: number

section \<open>projectCoordinate\<close>

definition projectCoordinate :: "Coordinates \<Rightarrow> MapBounds \<Rightarrow> point" where
  "projectCoordinate coord bounds =
     \<lparr> px = ((lng coord - minLng bounds) / (maxLng bounds - minLng bounds)) * width bounds,
       py = height bounds
            - ((lat coord - minLat bounds) / (maxLat bounds - minLat bounds)) * height bounds \<rparr>"

lemma Fin_minus [simp]: "Fin a - Fin b = Fin (a - b)"
  by (simp add: minus_number_def)

lemma Fin_divide [simp]: "b \<noteq> 0 \<Longrightarrow> Fin a / Fin b = Fin (a / b)"
  by simp

text \<open>
  Where a span is zero the quotient is a division by zero, and the result is not a finite
  number: this is the case the hypothesis of the next theorem excludes.
\<close>

lemma projectCoordinate_zero_span:
  "px (projectCoordinate \<lparr> lat = Fin la, lng = Fin lo \<rparr>
         \<lparr> minLat = Fin mnLa, maxLat = Fin mxLa, minLng = Fin m, maxLng = Fin m,
           width = Fin w, height = Fin h \<rparr>) \<noteq> Fin r"
  by (simp add: projectCoordinate_def)



section \<open>GeoJSON data\<close>

text \<open>
  A geometry is \<^verbatim>\<open>{ type: string; coordinates: number[][][] | number[][][][] }\<close>. The
  program casts \<^verbatim>\<open>coordinates\<close> by the value of \<^verbatim>\<open>type\<close>: three levels of
  nesting for \<^verbatim>\<open>'Polygon'\<close>, four for \<^verbatim>\<open>'MultiPolygon'\<close>, and never reads it for
  any other type. The model is the tagged union this discipline describes. The third
  constructor carries the type string of a geometry that is neither; \<open>other_type\<close> is the
  type of those strings, so that the tag \<open>gtype\<close> and the constructor always agree.
\<close>

typedef other_type = "{t :: string. t \<noteq> ''Polygon'' \<and> t \<noteq> ''MultiPolygon''}"
  by (rule exI [of _ "''Point''"]) simp

datatype geometry =
    Polygon "number list list list"
  | MultiPolygon "number list list list list"
  | OtherGeometry other_type

fun gtype :: "geometry \<Rightarrow> string" where
  "gtype (Polygon _) = ''Polygon''"
| "gtype (MultiPolygon _) = ''MultiPolygon''"
| "gtype (OtherGeometry t) = Rep_other_type t"

text \<open>
  The properties of a feature that the modelled code reads (\<^verbatim>\<open>adcode\<close>, \<^verbatim>\<open>name\<close>,
  \<^verbatim>\<open>center\<close>); \<^verbatim>\<open>center\<close> is optional because the map view tests it before use.
  The field \<^verbatim>\<open>type\<close> of a collection is \<open>gdtype\<close>. A string is the list of its
  bytes in UTF-8.
\<close>

record properties =
  adcode :: number
  name :: string
  center :: "number list option"

record GeoFeature =
  properties :: properties
  geometry :: geometry

record GeoData =
  gdtype :: string
  features :: "GeoFeature list"

lemma gtype_Polygon_iff: "gtype g = ''Polygon'' \<longleftrightarrow> (\<exists>c. g = Polygon c)"
  using Rep_other_type by (cases g) auto

lemma gtype_MultiPolygon_iff: "gtype g = ''MultiPolygon'' \<longleftrightarrow> (\<exists>c. g = MultiPolygon c)"
  using Rep_other_type by (cases g) auto

section \<open>calculateBounds\<close>

text \<open>
  The four running variables \<^verbatim>\<open>minLat, maxLat, minLng, maxLng\<close> are a tuple in this
  order. \<open>visit\<close> is the body of the innermost callback; \<^verbatim>\<open>forEach\<close> is \<open>fold\<close>.
  The two tests of \<^verbatim>\<open>feature.geometry.type\<close> are the first two cases of
  \<open>visitFeature\<close> (\<open>gtype_MultiPolygon_iff\<close>, \<open>gtype_Polygon_iff\<close>).
\<close>

type_synonym extent = "number \<times> number \<times> number \<times> number"

fun visit :: "number list \<Rightarrow> extent \<Rightarrow> extent" where
  "visit coord (mnLat, mxLat, mnLng, mxLng) =
     (let lng' = elem coord 0; lat' = elem coord 1
      in (Math_min mnLat lat', Math_max mxLat lat', Math_min mnLng lng', Math_max mxLng lng'))"

definition visitFeature :: "GeoFeature \<Rightarrow> extent \<Rightarrow> extent" where
  "visitFeature feature e =
     (case geometry feature of
        MultiPolygon coordinates \<Rightarrow>
          fold (\<lambda>polygon. fold (\<lambda>ring. fold visit ring) polygon) coordinates e
      | Polygon coordinates \<Rightarrow> fold (\<lambda>ring. fold visit ring) coordinates e
      | OtherGeometry _ \<Rightarrow> e)"

text \<open>The second parameter is optional in the source: \<^verbatim>\<open>padding: number = 0.1\<close>.\<close>

definition calculateBounds :: "GeoData \<Rightarrow> number option \<Rightarrow> MapBounds" where
  "calculateBounds geoData padding_opt =
     (let padding = (case padding_opt of None \<Rightarrow> Fin (1 / 10) | Some p \<Rightarrow> p);
          (mnLat, mxLat, mnLng, mxLng) = fold visitFeature (features geoData) (PInf, NInf, PInf, NInf);
          latPadding = (mxLat - mnLat) * padding;
          lngPadding = (mxLng - mnLng) * padding
      in \<lparr> minLat = mnLat - latPadding,
           maxLat = mxLat + latPadding,
           minLng = mnLng - lngPadding,
           maxLng = mxLng + lngPadding,
           width = Fin 800,
           height = Fin 600 \<rparr>)"

text \<open>
  The claim's words: every coordinate of every ring of every feature whose geometry type is
  \<^verbatim>\<open>'Polygon'\<close> or \<^verbatim>\<open>'MultiPolygon'\<close>, and the smallest and largest latitude and
  longitude among them, each pushed outwards by \<open>p\<close> times the raw span.
\<close>

fun rings :: "geometry \<Rightarrow> number list list list" where
  "rings (Polygon coordinates) = coordinates"
| "rings (MultiPolygon coordinates) = concat coordinates"
| "rings (OtherGeometry _) = []"

definition spec_coordinates :: "GeoData \<Rightarrow> number list list" where
  "spec_coordinates geoData =
     concat (concat (map (\<lambda>f. rings (geometry f))
       (filter (\<lambda>f. gtype (geometry f) = ''Polygon'' \<or> gtype (geometry f) = ''MultiPolygon'')
          (features geoData))))"


lemma fold_fold_concat: "fold (\<lambda>xs. fold f xs) xss e = fold f (concat xss) e"
  by (induction xss arbitrary: e) simp_all

lemma visitFeature_rings: "visitFeature f e = fold visit (concat (rings (geometry f))) e"
  by (cases "geometry f") (simp_all add: visitFeature_def fold_fold_concat)

lemma fold_visitFeature:
  "fold visitFeature fs e = fold visit (concat (concat (map (\<lambda>f. rings (geometry f)) fs))) e"
  by (induction fs arbitrary: e) (simp_all add: visitFeature_rings)

lemma rings_filter:
  "concat (map (\<lambda>f. rings (geometry f))
       (filter (\<lambda>f. gtype (geometry f) = ''Polygon'' \<or> gtype (geometry f) = ''MultiPolygon'') fs))
   = concat (map (\<lambda>f. rings (geometry f)) fs)"
proof (induction fs)
  case Nil
  show ?case by simp
next
  case (Cons f fs)
  show ?case
  proof (cases "geometry f")
    case (OtherGeometry t)
    have "Rep_other_type t \<noteq> ''Polygon''" "Rep_other_type t \<noteq> ''MultiPolygon''"
      using Rep_other_type [of t] by simp_all
    with OtherGeometry Cons show ?thesis by simp
  qed (use Cons in simp_all)
qed

lemma fold_visitFeature_spec:
  "fold visitFeature (features g) e = fold visit (spec_coordinates g) e"
  by (simp add: fold_visitFeature spec_coordinates_def rings_filter)




text \<open>
  The nested traversal visits exactly the coordinates the claim names, in order; features of
  any other geometry type contribute nothing. With no coordinate at all the running values
  keep their initial infinities.
\<close>

lemma calculateBounds_traversal:
  "calculateBounds g pad =
     (let padding = (case pad of None \<Rightarrow> Fin (1 / 10) | Some p \<Rightarrow> p);
          (mnLat, mxLat, mnLng, mxLng) = fold visit (spec_coordinates g) (PInf, NInf, PInf, NInf)
      in \<lparr> minLat = mnLat - (mxLat - mnLat) * padding,
           maxLat = mxLat + (mxLat - mnLat) * padding,
           minLng = mnLng - (mxLng - mnLng) * padding,
           maxLng = mxLng + (mxLng - mnLng) * padding,
           width = Fin 800, height = Fin 600 \<rparr>)"
  by (simp add: calculateBounds_def fold_visitFeature_spec Let_def)

lemma calculateBounds_empty:
  "spec_coordinates g = [] \<Longrightarrow>
   calculateBounds g None
     = \<lparr> minLat = PInf, maxLat = NInf, minLng = PInf, maxLng = NInf,
         width = Fin 800, height = Fin 600 \<rparr>"
  by (simp add: calculateBounds_traversal minus_number_def)




section \<open>SVG paths: polygonToSVGPath, multiPolygonToSVGPath, geometryToSVGPath\<close>

text \<open>
  A template literal converts a number to a string with the language's own
  \<^verbatim>\<open>Number::toString\<close>; it is the parameter \<open>str\<close> of every function below.
  \<open>join\<close> is \<^verbatim>\<open>Array.prototype.join\<close> on an array of strings.
\<close>

fun join :: "string \<Rightarrow> string list \<Rightarrow> string" where
  "join sep [] = []"
| "join sep [s] = s"
| "join sep (s # t # ts) = s @ sep @ join sep (t # ts)"

text \<open>
  The inner \<^verbatim>\<open>ring.forEach((coord, coordIndex) => ...)\<close> with the array
  \<^verbatim>\<open>pathCommands\<close> it pushes to. Both path builders contain the same text for one
  ring, which is \<open>ringPath\<close> here; \<^verbatim>\<open>paths.push\<close> appends at the end.
\<close>

fun pushCommands ::
  "(number \<Rightarrow> string) \<Rightarrow> MapBounds \<Rightarrow> number list list \<Rightarrow> nat \<Rightarrow> string list \<Rightarrow> string list"
where
  "pushCommands str bounds [] coordIndex pathCommands = pathCommands"
| "pushCommands str bounds (coord # rest) coordIndex pathCommands =
     (let lng' = elem coord 0; lat' = elem coord 1;
          p = projectCoordinate \<lparr> lat = lat', lng = lng' \<rparr> bounds
      in pushCommands str bounds rest (Suc coordIndex)
           (pathCommands @
             [if coordIndex = 0 then ''M '' @ str (px p) @ '' '' @ str (py p)
              else ''L '' @ str (px p) @ '' '' @ str (py p)]))"

definition ringPath :: "(number \<Rightarrow> string) \<Rightarrow> MapBounds \<Rightarrow> number list list \<Rightarrow> string" where
  "ringPath str bounds ring = join '' '' (pushCommands str bounds ring 0 [] @ [''Z''])"

definition polygonToSVGPath ::
  "(number \<Rightarrow> string) \<Rightarrow> number list list list \<Rightarrow> MapBounds \<Rightarrow> string" where
  "polygonToSVGPath str coordinates bounds =
     join '' '' (fold (\<lambda>ring paths. paths @ [ringPath str bounds ring]) coordinates [])"

definition multiPolygonToSVGPath ::
  "(number \<Rightarrow> string) \<Rightarrow> number list list list list \<Rightarrow> MapBounds \<Rightarrow> string" where
  "multiPolygonToSVGPath str coordinates bounds =
     join '' ''
       (fold (\<lambda>polygon paths. fold (\<lambda>ring paths. paths @ [ringPath str bounds ring]) polygon paths)
          coordinates [])"

text \<open>
  The \<^verbatim>\<open>switch\<close> on \<^verbatim>\<open>geometry.type\<close>. Its default branch also writes a warning
  to the console, which is not modelled.
\<close>

definition geometryToSVGPath :: "(number \<Rightarrow> string) \<Rightarrow> geometry \<Rightarrow> MapBounds \<Rightarrow> string" where
  "geometryToSVGPath str g bounds =
     (case g of
        Polygon coordinates \<Rightarrow> polygonToSVGPath str coordinates bounds
      | MultiPolygon coordinates \<Rightarrow> multiPolygonToSVGPath str coordinates bounds
      | OtherGeometry _ \<Rightarrow> [])"

text \<open>The claim's words: \<open>x y\<close> of a coordinate read as \<open>[lng, lat]\<close> and projected.\<close>

definition spec_xy :: "(number \<Rightarrow> string) \<Rightarrow> MapBounds \<Rightarrow> number list \<Rightarrow> string" where
  "spec_xy str b c =
     str (px (projectCoordinate \<lparr> lat = elem c 1, lng = elem c 0 \<rparr> b)) @ '' '' @
     str (py (projectCoordinate \<lparr> lat = elem c 1, lng = elem c 0 \<rparr> b))"

lemma join_Cons: "join sep (s # ss) = s @ concat (map (\<lambda>t. sep @ t) ss)"
  by (induction ss arbitrary: s) simp_all

lemma pushCommands_Suc:
  "pushCommands str b cs (Suc k) acc = acc @ map (\<lambda>c. ''L '' @ spec_xy str b c) cs"
  by (induction cs arbitrary: k acc) (simp_all add: Let_def spec_xy_def)

lemma pushCommands_0:
  "pushCommands str b (c # cs) 0 acc
     = acc @ (''M '' @ spec_xy str b c) # map (\<lambda>c. ''L '' @ spec_xy str b c) cs"
  by (simp add: Let_def pushCommands_Suc) (simp add: spec_xy_def)

lemma ringPath_Nil: "ringPath str b [] = ''Z''"
  by (simp add: ringPath_def)

lemma ringPath_Cons:
  "ringPath str b (c # cs)
     = ''M '' @ spec_xy str b c @ concat (map (\<lambda>c. '' L '' @ spec_xy str b c) cs) @ '' Z''"
  unfolding ringPath_def pushCommands_0
  by (simp add: join_Cons del: pushCommands.simps) (simp add: comp_def)

lemma fold_push: "fold (\<lambda>x acc. acc @ [f x]) xs acc = acc @ map f xs"
  by (induction xs arbitrary: acc) simp_all

lemma fold_fold_push:
  "fold (\<lambda>xs acc. acc @ map f xs) xss acc = acc @ map f (concat xss)"
  by (induction xss arbitrary: acc) simp_all

text \<open>A triangle in the unit square, with a number printer that knows three values.\<close>

lemma polygonToSVGPath_example: "polygonToSVGPath (\<lambda>n. case n of Fin r \<Rightarrow> (if r = 0 then ''0'' else if r = 800 then ''800'' else if r = 600 then ''600'' else ''?'') | _ \<Rightarrow> ''NaN'')
   [[[Fin 0, Fin 0], [Fin 1, Fin 0], [Fin 1, Fin 1]]]
   \<lparr> minLat = Fin 0, maxLat = Fin 1, minLng = Fin 0, maxLng = Fin 1, width = Fin 800, height = Fin 600 \<rparr>
   = ''M 0 600 L 800 600 L 800 0 Z''"
  by (simp add: polygonToSVGPath_def ringPath_def projectCoordinate_def elem_def Let_def)

text \<open>
  Claim C3. A ring \<open>[c0, c1, ..., cn]\<close> becomes \<open>M x0 y0 L x1 y1 ... L xn yn Z\<close>, each
  \<open>(xi, yi)\<close> the projection of \<open>ci\<close> read as \<open>[lng, lat]\<close>; a polygon is its rings'
  strings joined by single spaces, a multipolygon the strings of all rings of all polygons
  in input order, joined the same way; an empty coordinates array gives the empty string.
\<close>

theorem svg_path_shape:
  "ringPath str b (c # cs)
     = ''M '' @ spec_xy str b c @ concat (map (\<lambda>c. '' L '' @ spec_xy str b c) cs) @ '' Z''
   \<and> polygonToSVGPath str polygon b = join '' '' (map (ringPath str b) polygon)
   \<and> multiPolygonToSVGPath str multi b = join '' '' (map (ringPath str b) (concat multi))
   \<and> polygonToSVGPath str [] b = []
   \<and> multiPolygonToSVGPath str [] b = []"
  by (simp add: ringPath_Cons polygonToSVGPath_def multiPolygonToSVGPath_def fold_push
      fold_fold_push)

text \<open>
  Claim C5. The path of a polygon is the path of the multipolygon that has it as its only
  member, and \<open>geometryToSVGPath\<close> agrees on the two geometries.
\<close>

theorem polygon_as_multiPolygon:
  "polygonToSVGPath str c b = multiPolygonToSVGPath str [c] b
   \<and> geometryToSVGPath str (Polygon c) b = geometryToSVGPath str (MultiPolygon [c]) b"
  by (simp add: geometryToSVGPath_def polygonToSVGPath_def multiPolygonToSVGPath_def)

section \<open>The map view (components/map/SVGMap.tsx)\<close>

subsection \<open>State and handlers\<close>

text \<open>
  The component's \<^verbatim>\<open>useState\<close> cells, with their initial values. A handler is a
  function from state to state; \<^verbatim>\<open>setZoomLevel(prev => ...)\<close> reads the current cell.
\<close>

record SVGMap_state =
  mapData :: "GeoData option"
  bounds :: "MapBounds option"
  hoveredRegion :: "string option"
  loading :: bool
  error :: "string option"
  zoomLevel :: number
  panOffset :: point
  isDragging :: bool
  dragStart :: point

definition initial_state :: SVGMap_state where
  "initial_state =
     \<lparr> mapData = None, bounds = None, hoveredRegion = None, loading = True, error = None,
       zoomLevel = Fin 1, panOffset = \<lparr> px = Fin 0, py = Fin 0 \<rparr>, isDragging = False,
       dragStart = \<lparr> px = Fin 0, py = Fin 0 \<rparr> \<rparr>"

text \<open>The fields of a mouse or wheel event that the handlers read.\<close>

record mouse_event =
  button :: number
  clientX :: number
  clientY :: number
  deltaY :: number

definition handleZoomIn :: "SVGMap_state \<Rightarrow> SVGMap_state" where
  "handleZoomIn s = s \<lparr> zoomLevel := Math_min (zoomLevel s * Fin (12 / 10)) (Fin 3) \<rparr>"

definition handleZoomOut :: "SVGMap_state \<Rightarrow> SVGMap_state" where
  "handleZoomOut s = s \<lparr> zoomLevel := Math_max (zoomLevel s / Fin (12 / 10)) (Fin (5 / 10)) \<rparr>"

definition handleZoomReset :: "SVGMap_state \<Rightarrow> SVGMap_state" where
  "handleZoomReset s = s \<lparr> zoomLevel := Fin 1, panOffset := \<lparr> px = Fin 0, py = Fin 0 \<rparr> \<rparr>"

definition handleMouseDown :: "mouse_event \<Rightarrow> SVGMap_state \<Rightarrow> SVGMap_state" where
  "handleMouseDown e s =
     (if button e = Fin 0
      then s \<lparr> isDragging := True,
               dragStart := \<lparr> px = clientX e - px (panOffset s),
                              py = clientY e - py (panOffset s) \<rparr> \<rparr>
      else s)"

definition handleMouseMove :: "mouse_event \<Rightarrow> SVGMap_state \<Rightarrow> SVGMap_state" where
  "handleMouseMove e s =
     (if isDragging s
      then s \<lparr> panOffset := \<lparr> px = clientX e - px (dragStart s),
                              py = clientY e - py (dragStart s) \<rparr> \<rparr>
      else s)"

definition handleMouseUp :: "SVGMap_state \<Rightarrow> SVGMap_state" where
  "handleMouseUp s = s \<lparr> isDragging := False \<rparr>"

definition handleWheel :: "mouse_event \<Rightarrow> SVGMap_state \<Rightarrow> SVGMap_state" where
  "handleWheel e s =
     (let delta = (if Fin 0 < deltaY e then Fin (9 / 10) else Fin (11 / 10))
      in s \<lparr> zoomLevel := Math_max (Fin (5 / 10)) (Math_min (Fin 3) (zoomLevel s * delta)) \<rparr>)"

text \<open>
  The effect that loads the map once: its outcome is the combined collection or a failure.
  The message is the UTF-8 text of the source's literal.
\<close>

definition msg_load_failed :: string where
  "msg_load_failed =
     [CHR 0xE5, CHR 0x9C, CHR 0xB0] @ [CHR 0xE5, CHR 0x9B, CHR 0xBE] @ [CHR 0xE6, CHR 0x95, CHR 0xB0] @
     [CHR 0xE6, CHR 0x8D, CHR 0xAE] @ [CHR 0xE5, CHR 0x8A, CHR 0xA0] @ [CHR 0xE8, CHR 0xBD, CHR 0xBD] @
     [CHR 0xE5, CHR 0xA4, CHR 0xB1] @ [CHR 0xE8, CHR 0xB4, CHR 0xA5]"

definition msg_unavailable :: string where
  "msg_unavailable =
     [CHR 0xE5, CHR 0x9C, CHR 0xB0] @ [CHR 0xE5, CHR 0x9B, CHR 0xBE] @ [CHR 0xE6, CHR 0x95, CHR 0xB0] @
     [CHR 0xE6, CHR 0x8D, CHR 0xAE] @ [CHR 0xE4, CHR 0xB8, CHR 0x8D] @ [CHR 0xE5, CHR 0x8F, CHR 0xAF] @
     [CHR 0xE7, CHR 0x94, CHR 0xA8]"

definition loadMapData :: "GeoData option \<Rightarrow> SVGMap_state \<Rightarrow> SVGMap_state" where
  "loadMapData outcome s =
     (case outcome of
        Some combined \<Rightarrow>
          s \<lparr> mapData := Some combined, bounds := Some (calculateBounds combined None),
              error := None, loading := False \<rparr>
      | None \<Rightarrow> s \<lparr> error := Some msg_load_failed, loading := False \<rparr>)"

datatype event =
    ZoomIn | ZoomOut | ZoomReset
  | MouseDown mouse_event | MouseMove mouse_event | MouseUp | MouseLeave
  | Wheel mouse_event
  | RegionEnter string | RegionLeave
  | MapLoaded "GeoData option"

fun step :: "SVGMap_state \<Rightarrow> event \<Rightarrow> SVGMap_state" where
  "step s ZoomIn = handleZoomIn s"
| "step s ZoomOut = handleZoomOut s"
| "step s ZoomReset = handleZoomReset s"
| "step s (MouseDown e) = handleMouseDown e s"
| "step s (MouseMove e) = handleMouseMove e s"
| "step s MouseUp = handleMouseUp s"
| "step s MouseLeave = handleMouseUp s"
| "step s (Wheel e) = handleWheel e s"
| "step s (RegionEnter regionName) = s \<lparr> hoveredRegion := Some regionName \<rparr>"
| "step s RegionLeave = s \<lparr> hoveredRegion := None \<rparr>"
| "step s (MapLoaded outcome) = loadMapData outcome s"

definition run :: "event list \<Rightarrow> SVGMap_state" where
  "run events = foldl step initial_state events"

text \<open>The invariant of the zoom level: a finite number between one half and three.\<close>

fun zoom_in_range :: "number \<Rightarrow> bool" where
  "zoom_in_range (Fin z) = (1 / 2 \<le> z \<and> z \<le> 3)"
| "zoom_in_range _ = False"

lemma step_zoom_in_range: "zoom_in_range (zoomLevel s) \<Longrightarrow> zoom_in_range (zoomLevel (step s ev))"
proof (cases "zoomLevel s")
  case (Fin z)
  assume "zoom_in_range (zoomLevel s)"
  with Fin have z: "1 / 2 \<le> z" "z \<le> 3" by simp_all
  show ?thesis
    using z Fin
    by (cases ev)
       (auto simp: handleZoomIn_def handleZoomOut_def handleZoomReset_def handleMouseDown_def
          handleMouseMove_def handleMouseUp_def handleWheel_def loadMapData_def Let_def
          split: option.splits)
qed auto

lemma foldl_zoom_in_range:
  "zoom_in_range (zoomLevel s) \<Longrightarrow> zoom_in_range (zoomLevel (foldl step s events))"
  by (induction events arbitrary: s) (simp_all add: step_zoom_in_range)

text \<open>
  Claim C6. The zoom level starts at 1 and after any sequence of events lies between 0.5 and
  3. Zooming in replaces \<open>z\<close> by \<open>min (1.2 z) 3\<close>, zooming out by \<open>max (z / 1.2) 0.5\<close>,
  the wheel by \<open>max 0.5 (min 3 (z d))\<close> with \<open>d = 0.9\<close> when \<^verbatim>\<open>deltaY > 0\<close> and
  \<open>d = 1.1\<close> otherwise; reset puts the zoom level at 1 and the pan offset at the origin.
\<close>

theorem zoom_invariant:
  "zoomLevel initial_state = Fin 1
   \<and> zoom_in_range (zoomLevel (run events))
   \<and> zoomLevel (handleZoomIn (s \<lparr> zoomLevel := Fin z \<rparr>)) = Fin (min (12 / 10 * z) 3)
   \<and> zoomLevel (handleZoomOut (s \<lparr> zoomLevel := Fin z \<rparr>)) = Fin (max (z / (12 / 10)) (1 / 2))
   \<and> zoomLevel (handleWheel e (s \<lparr> zoomLevel := Fin z \<rparr>))
       = Fin (max (1 / 2) (min 3 (z * (if Fin 0 < deltaY e then 9 / 10 else 11 / 10))))
   \<and> zoomLevel (handleZoomReset s) = Fin 1
   \<and> panOffset (handleZoomReset s) = \<lparr> px = Fin 0, py = Fin 0 \<rparr>"
proof -
  have "zoom_in_range (zoomLevel (run events))"
    unfolding run_def by (rule foldl_zoom_in_range) (simp add: initial_state_def)
  moreover have "zoomLevel (handleZoomIn (s \<lparr> zoomLevel := Fin z \<rparr>)) = Fin (min (12 / 10 * z) 3)"
    by (simp add: handleZoomIn_def min_def)
  moreover have "zoomLevel (handleZoomOut (s \<lparr> zoomLevel := Fin z \<rparr>)) = Fin (max (z / (12 / 10)) (1 / 2))"
    by (simp add: handleZoomOut_def max_def)
  moreover have "zoomLevel (handleWheel e (s \<lparr> zoomLevel := Fin z \<rparr>))
       = Fin (max (1 / 2) (min 3 (z * (if Fin 0 < deltaY e then 9 / 10 else 11 / 10))))"
    by (simp add: handleWheel_def Let_def min_def max_def)
  ultimately show ?thesis
    by (simp add: initial_state_def handleZoomReset_def)
qed


subsection \<open>Rendering\<close>

text \<open>
  What the component returns, as data: the loading view, the error view with its message,
  or the map. Of the map, the model keeps the \<^verbatim>\<open>viewBox\<close>, the pan/zoom transform and
  one entry per feature of \<^verbatim>\<open>mapData.features.map(...)\<close>: \<open>None\<close> where the callback
  returns \<^verbatim>\<open>null\<close> (React renders nothing for it), otherwise the group with its key,
  its path, its style and, if the feature has a centre, its label. Event handlers, class
  names, the legend and the zoom buttons are left out.
\<close>

record region_style =
  fill :: string
  stroke :: string
  strokeWidth :: number

record region_label =
  label_x :: number
  label_y :: number
  label_fill :: string
  label_text :: string

record region =
  region_key :: string
  region_d :: string
  region_style :: region_style
  region_label :: "region_label option"

record map_view =
  viewBox :: string
  transform :: string
  regions :: "region option list"
  hover_tip :: "string option"

datatype view = LoadingView | ErrorView string | MapView map_view

text \<open>\<^verbatim>\<open>codeStr.startsWith(p)\<close>.\<close>

definition startsWith :: "string \<Rightarrow> string \<Rightarrow> bool" where
  "startsWith s p = (take (length p) s = p)"

definition getCityType :: "(number \<Rightarrow> string) \<Rightarrow> number \<Rightarrow> string" where
  "getCityType str adcode' =
     (let codeStr = str adcode'
      in if startsWith codeStr ''310'' then ''shanghai''
         else if startsWith codeStr ''3301'' then ''hangzhou''
         else if startsWith codeStr ''3305'' then ''huzhou''
         else if startsWith codeStr ''3304'' then ''jiaxing''
         else if startsWith codeStr ''3302'' then ''ningbo''
         else if startsWith codeStr ''3306'' then ''shaoxing''
         else if startsWith codeStr ''3309'' then ''zhoushan''
         else ''unknown'')"

definition cityColors :: "string \<Rightarrow> string" where
  "cityColors cityType =
     (if cityType = ''shanghai'' then ''#e0f2fe''
      else if cityType = ''hangzhou'' then ''#f0f9ff''
      else if cityType = ''huzhou'' then ''#ecfdf5''
      else if cityType = ''jiaxing'' then ''#fef7cd''
      else if cityType = ''ningbo'' then ''#fdf2f8''
      else if cityType = ''shaoxing'' then ''#f3e8ff''
      else if cityType = ''zhoushan'' then ''#ecfccb''
      else ''#f8fafc'')"

definition getRegionStyle ::
  "(number \<Rightarrow> string) \<Rightarrow> string option \<Rightarrow> string option \<Rightarrow> GeoFeature \<Rightarrow> region_style" where
  "getRegionStyle str selectedRegion hovered feature =
     (let regionName = name (properties feature);
          isSelected = (selectedRegion = Some regionName);
          isHovered = (hovered = Some regionName);
          cityType = getCityType str (adcode (properties feature))
      in \<lparr> fill = (if isSelected then ''#3b82f6''
                   else if isHovered then ''#60a5fa''
                   else cityColors cityType),
           stroke = (if isSelected \<or> isHovered then ''#1d4ed8'' else ''#94a3b8''),
           strokeWidth = (if isSelected then Fin 2 else Fin 1) \<rparr>)"

definition renderFeature ::
  "(number \<Rightarrow> string) \<Rightarrow> string option \<Rightarrow> string option \<Rightarrow> MapBounds \<Rightarrow> GeoFeature \<Rightarrow> nat
     \<Rightarrow> region option" where
  "renderFeature str selectedRegion hovered b feature index =
     (if gtype (geometry feature) \<noteq> ''Polygon'' \<and> gtype (geometry feature) \<noteq> ''MultiPolygon''
      then None
      else
        (let path = geometryToSVGPath str (geometry feature) b;
             regionName = name (properties feature)
         in Some \<lparr> region_key = str (adcode (properties feature)) @ ''-'' @ str (Fin (real index)),
                   region_d = path,
                   region_style = getRegionStyle str selectedRegion hovered feature,
                   region_label =
                     (case center (properties feature) of
                        None \<Rightarrow> None
                      | Some c \<Rightarrow>
                          Some \<lparr> label_x = px (projectCoordinate \<lparr> lat = elem c 1, lng = elem c 0 \<rparr> b),
                                 label_y = py (projectCoordinate \<lparr> lat = elem c 1, lng = elem c 0 \<rparr> b),
                                 label_fill = (if selectedRegion = Some regionName
                                               then ''#ffffff'' else ''#374151''),
                                 label_text = regionName \<rparr>) \<rparr>))"

text \<open>\<^verbatim>\<open>array.map((element, index) => ...)\<close>.\<close>

fun mapIndexed :: "('a \<Rightarrow> nat \<Rightarrow> 'b) \<Rightarrow> nat \<Rightarrow> 'a list \<Rightarrow> 'b list" where
  "mapIndexed f index [] = []"
| "mapIndexed f index (x # xs) = f x index # mapIndexed f (Suc index) xs"

text \<open>A string is falsy when it is absent or empty.\<close>

fun truthy :: "string option \<Rightarrow> bool" where
  "truthy None = False"
| "truthy (Some s) = (s \<noteq> [])"

definition render :: "(number \<Rightarrow> string) \<Rightarrow> string option \<Rightarrow> SVGMap_state \<Rightarrow> view" where
  "render str selectedRegion s =
     (if loading s then LoadingView
      else
        (case (truthy (error s), mapData s, bounds s) of
           (False, Some m, Some b) \<Rightarrow>
             MapView
               \<lparr> viewBox = ''0 0 '' @ str (width b) @ '' '' @ str (height b),
                 transform = ''translate('' @ str (px (panOffset s)) @ '', '' @ str (py (panOffset s))
                             @ '') scale('' @ str (zoomLevel s) @ '')'',
                 regions = mapIndexed (renderFeature str selectedRegion (hoveredRegion s) b) 0
                             (features m),
                 hover_tip = (if truthy (hoveredRegion s) then hoveredRegion s else None) \<rparr>
         | _ \<Rightarrow> ErrorView (if truthy (error s) then the (error s) else msg_unavailable)))"

lemma mapIndexed_length: "length (mapIndexed f k xs) = length xs"
  by (induction xs arbitrary: k) simp_all

lemma mapIndexed_nth: "i < length xs \<Longrightarrow> mapIndexed f k xs ! i = f (xs ! i) (k + i)"
  by (induction xs arbitrary: k i) (auto simp: nth_Cons split: nat.splits)

text \<open>
  Claim C9. For a geometry whose type is neither \<^verbatim>\<open>'Polygon'\<close> nor
  \<^verbatim>\<open>'MultiPolygon'\<close>, \<open>geometryToSVGPath\<close> returns the empty string, and the map view
  has no element at the position of a feature with such a geometry.
\<close>

theorem unsupported_geometry_skipped:
  assumes "gtype g \<noteq> ''Polygon''" and "gtype g \<noteq> ''MultiPolygon''"
    and "i < length fs" and "geometry (fs ! i) = g"
  shows "geometryToSVGPath str g b = []
       \<and> (\<exists>v. render str selectedRegion
                 (s \<lparr> loading := False, error := None, bounds := Some b,
                      mapData := Some \<lparr> gdtype = t, features = fs \<rparr> \<rparr>) = MapView v
              \<and> length (regions v) = length fs
              \<and> regions v ! i = None)"
proof -
  from assms obtain ot where g: "g = OtherGeometry ot"
    by (cases g) auto
  have "geometryToSVGPath str g b = []"
    by (simp add: g geometryToSVGPath_def)
  moreover have "renderFeature str selectedRegion hovered b (fs ! i) k = None" for hovered k
    using assms by (simp add: renderFeature_def)
  ultimately show ?thesis
    using assms(3) by (simp add: render_def mapIndexed_length mapIndexed_nth)
qed

theorem unsupported_geometry_skipped_witness:
  "gtype (OtherGeometry (Abs_other_type ''Point'')) \<noteq> ''Polygon''
   \<and> gtype (OtherGeometry (Abs_other_type ''Point'')) \<noteq> ''MultiPolygon''
   \<and> geometryToSVGPath (\<lambda>n. ''n'') (OtherGeometry (Abs_other_type ''Point''))
         \<lparr> minLat = Fin 0, maxLat = Fin 1, minLng = Fin 0, maxLng = Fin 1,
           width = Fin 800, height = Fin 600 \<rparr> = []
   \<and> (\<exists>v. render (\<lambda>n. ''n'') None
             (initial_state \<lparr> loading := False, error := None,
                bounds := Some \<lparr> minLat = Fin 0, maxLat = Fin 1, minLng = Fin 0, maxLng = Fin 1,
                                  width = Fin 800, height = Fin 600 \<rparr>,
                mapData := Some \<lparr> gdtype = ''FeatureCollection'',
                   features =
                     [ \<lparr> properties = \<lparr> adcode = Fin 310101, name = ''A'', center = None \<rparr>,
                         geometry = Polygon [[[Fin 0, Fin 0], [Fin 1, Fin 1]]] \<rparr>,
                       \<lparr> properties = \<lparr> adcode = Fin 310102, name = ''B'', center = None \<rparr>,
                         geometry = OtherGeometry (Abs_other_type ''Point'') \<rparr> ] \<rparr> \<rparr>) = MapView v
          \<and> length (regions v) = 2 \<and> regions v ! 1 = None \<and> regions v ! 0 \<noteq> None)"
proof -
  let ?fs = "[ \<lparr> properties = \<lparr> adcode = Fin 310101, name = ''A'', center = None \<rparr>,
                         geometry = Polygon [[[Fin 0, Fin 0], [Fin 1, Fin 1]]] \<rparr>,
                       \<lparr> properties = \<lparr> adcode = Fin 310102, name = ''B'', center = None \<rparr>,
                         geometry = OtherGeometry (Abs_other_type ''Point'') \<rparr> ]"
  have h: "gtype (OtherGeometry (Abs_other_type ''Point'')) \<noteq> ''Polygon''"
      "gtype (OtherGeometry (Abs_other_type ''Point'')) \<noteq> ''MultiPolygon''"
    by (simp_all add: Abs_other_type_inverse)
  have i: "1 < length ?fs" "geometry (?fs ! 1) = OtherGeometry (Abs_other_type ''Point'')"
    by simp_all
  show ?thesis
    using h unsupported_geometry_skipped [OF h i, where str = "\<lambda>n. ''n''" and selectedRegion = None
        and s = initial_state and t = "''FeatureCollection''"
        and b = "\<lparr> minLat = Fin 0, maxLat = Fin 1, minLng = Fin 0, maxLng = Fin 1,
                   width = Fin 800, height = Fin 600 \<rparr>"]
    by (auto simp: render_def renderFeature_def)
qed

section \<open>pointInPolygon\<close>

text \<open>
  \<^verbatim>\<open>polygon[k]\<close> is \<^verbatim>\<open>undefined\<close> outside the array, and reading \<^verbatim>\<open>.x\<close> of it
  throws; \<open>element_at\<close> and the error value make that a branch of the model. The index
  \<open>j\<close> starts at \<^verbatim>\<open>polygon.length - 1\<close>, which is \<open>-1\<close> for the empty array, so it
  is an integer.
\<close>

datatype js_error = TypeError

definition element_at :: "'a list \<Rightarrow> int \<Rightarrow> 'a option" where
  "element_at xs i = (if 0 \<le> i \<and> i < int (length xs) then Some (xs ! nat i) else None)"

text \<open>
  The \<^verbatim>\<open>for\<close> loop, one call per test of its condition; \<^verbatim>\<open>j = i++\<close> passes the old
  \<open>i\<close> as the next \<open>j\<close>. Besides \<^verbatim>\<open>inside\<close> the loop carries a log of every divisor
  \<^verbatim>\<open>yj - yi\<close> it evaluates: \<^verbatim>\<open>&&\<close> evaluates its right operand, and with it the
  division, only when the left one is true.
\<close>

function pip_loop ::
  "number \<Rightarrow> number \<Rightarrow> point list \<Rightarrow> nat \<Rightarrow> int \<Rightarrow> bool \<Rightarrow> number list
     \<Rightarrow> js_error + bool \<times> number list"
where
  "pip_loop x y polygon i j inside divisors =
     (if i < length polygon then
        (case (element_at polygon (int i), element_at polygon j) of
           (Some p_i, Some p_j) \<Rightarrow>
             (let xi = px p_i; yi = py p_i; xj = px p_j; yj = py p_j
              in if (yi > y) \<noteq> (yj > y) then
                   (if x < (xj - xi) * (y - yi) / (yj - yi) + xi
                    then pip_loop x y polygon (Suc i) (int i) (\<not> inside) (divisors @ [yj - yi])
                    else pip_loop x y polygon (Suc i) (int i) inside (divisors @ [yj - yi]))
                 else pip_loop x y polygon (Suc i) (int i) inside divisors)
         | _ \<Rightarrow> Inl TypeError)
      else Inr (inside, divisors))"
  by pat_completeness auto
termination
  by (relation "measure (\<lambda>(x, y, polygon, i, j, inside, divisors). length polygon - i)") auto

definition pointInPolygon :: "point \<Rightarrow> point list \<Rightarrow> js_error + bool" where
  "pointInPolygon point polygon =
     map_sum id fst
       (pip_loop (px point) (py point) polygon 0 (int (length polygon) - 1) False [])"

definition pointInPolygon_divisors :: "point \<Rightarrow> point list \<Rightarrow> number list" where
  "pointInPolygon_divisors point polygon =
     (case pip_loop (px point) (py point) polygon 0 (int (length polygon) - 1) False [] of
        Inr (inside, divisors) \<Rightarrow> divisors
      | Inl _ \<Rightarrow> [])"

text \<open>
  The claim's words. The edges \<open>(P[j], P[i])\<close> of consecutive vertices, the first of them
  the closing edge from the last vertex to the first; an edge straddles the horizontal line
  through \<open>p\<close> when exactly one endpoint has its \<open>y\<close> above \<open>p\<close>'s; it is a crossing
  when moreover its intersection with that line lies strictly to the right of \<open>p\<close>.
\<close>

definition spec_edges :: "point list \<Rightarrow> (point \<times> point) list" where
  "spec_edges P = (if P = [] then [] else zip (last P # butlast P) P)"

fun straddles :: "point \<Rightarrow> point \<times> point \<Rightarrow> bool" where
  "straddles p (p_j, p_i) = ((py p_i > py p) \<noteq> (py p_j > py p))"

fun intersection_x :: "point \<Rightarrow> point \<times> point \<Rightarrow> number" where
  "intersection_x p (p_j, p_i) =
     (px p_j - px p_i) * (py p - py p_i) / (py p_j - py p_i) + px p_i"

definition crossing :: "point \<Rightarrow> point \<times> point \<Rightarrow> bool" where
  "crossing p e = (straddles p e \<and> px p < intersection_x p e)"

declare pip_loop.simps [simp del]

lemma spec_edges_length: "length (spec_edges P) = length P"
  by (cases P rule: rev_cases) (simp_all add: spec_edges_def)

lemma spec_edges_nth:
  assumes "i < length P"
  shows "spec_edges P ! i = (P ! (if i = 0 then length P - 1 else i - 1), P ! i)"
proof -
  from assms have ne: "P \<noteq> []" by auto
  have "(last P # butlast P) ! i = P ! (if i = 0 then length P - 1 else i - 1)"
    using assms ne by (cases i) (simp_all add: last_conv_nth nth_butlast)
  then show ?thesis
    using assms ne by (simp add: spec_edges_def)
qed

lemma pip_loop_from:
  assumes "i \<le> length P"
    and "j = (if i = 0 then int (length P) - 1 else int i - 1)"
  shows "pip_loop x y P i j inside ds
         = Inr (inside \<noteq> odd (length (filter (crossing \<lparr> px = x, py = y \<rparr>) (drop i (spec_edges P)))),
                ds @ map (\<lambda>(p_j, p_i). py p_j - py p_i)
                       (filter (straddles \<lparr> px = x, py = y \<rparr>) (drop i (spec_edges P))))"
  using assms
proof (induction "length P - i" arbitrary: i j inside ds)
  case 0
  then have "i = length P" by simp
  then show ?case
    by (subst pip_loop.simps) (simp add: spec_edges_length)
next
  case (Suc n)
  then have i: "i < length P" by simp
  let ?p = "\<lparr> px = x, py = y \<rparr>"
  let ?k = "if i = 0 then length P - 1 else i - 1"
  have k: "?k < length P" using i by auto
  have ati: "element_at P (int i) = Some (P ! i)"
    using i by (simp add: element_at_def)
  have "j = int ?k" using Suc.prems(2) i by (auto simp: of_nat_diff)
  then have atj: "element_at P j = Some (P ! ?k)"
    using k by (simp add: element_at_def del: of_nat_diff)
  have dr: "drop i (spec_edges P) = (P ! ?k, P ! i) # drop (Suc i) (spec_edges P)"
    using i spec_edges_nth [OF i] by (simp add: Cons_nth_drop_Suc [symmetric] spec_edges_length)
  have IH: "pip_loop x y P (Suc i) (int i) ins ds'
         = Inr (ins \<noteq> odd (length (filter (crossing ?p) (drop (Suc i) (spec_edges P)))),
                ds' @ map (\<lambda>(p_j, p_i). py p_j - py p_i)
                       (filter (straddles ?p) (drop (Suc i) (spec_edges P))))" for ins ds'
    using Suc.hyps(2) i by (intro Suc.hyps(1)) auto
  show ?case
    by (subst pip_loop.simps) (auto simp: i ati atj dr IH Let_def crossing_def)
qed


lemma pip_loop_all:
  "pip_loop (px p) (py p) P 0 (int (length P) - 1) False []
     = Inr (odd (length (filter (crossing p) (spec_edges P))),
            map (\<lambda>(p_j, p_i). py p_j - py p_i) (filter (straddles p) (spec_edges P)))"
  using pip_loop_from [of 0 P "int (length P) - 1" "px p" "py p" False "[]"]
  by (cases p) simp

lemma straddles_divisor:
  "straddles p (p_j, p_i) \<Longrightarrow> py p_j - py p_i \<noteq> Fin 0"
  by (cases "py p_j"; cases "py p_i"; cases "py p") (auto simp: minus_number_def)


text \<open>
  Claim C8. For every point and vertex list the function returns a value; the divisors it
  evaluates are those of the straddling edges and none of them is zero; an edge whose
  endpoints have the same \<open>y\<close> never passes the guard.
\<close>

theorem pointInPolygon_total:
  "(\<exists>inside. pointInPolygon p P = Inr inside)
   \<and> pointInPolygon_divisors p P
       = map (\<lambda>(p_j, p_i). py p_j - py p_i) (filter (straddles p) (spec_edges P))
   \<and> Fin 0 \<notin> set (pointInPolygon_divisors p P)
   \<and> \<not> straddles p (\<lparr> px = xj, py = v \<rparr>, \<lparr> px = xi, py = v \<rparr>)"
proof -
  have d: "pointInPolygon_divisors p P
       = map (\<lambda>(p_j, p_i). py p_j - py p_i) (filter (straddles p) (spec_edges P))"
    by (simp add: pointInPolygon_divisors_def pip_loop_all del: of_nat_diff)
  have "Fin 0 \<notin> set (pointInPolygon_divisors p P)"
  proof
    assume "Fin 0 \<in> set (pointInPolygon_divisors p P)"
    then obtain p_j p_i where "straddles p (p_j, p_i)" and "py p_j - py p_i = Fin 0"
      unfolding d by auto
    then show False
      using straddles_divisor by blast
  qed
  moreover have "\<exists>inside. pointInPolygon p P = Inr inside"
    unfolding pointInPolygon_def pip_loop_all by simp
  ultimately show ?thesis
    using d by simp
qed

text \<open>The centre of the unit square is inside it; a point to its right is not.\<close>

lemma pointInPolygon_example:
  "pointInPolygon \<lparr> px = Fin (1 / 2), py = Fin (1 / 2) \<rparr>
     [\<lparr> px = Fin 0, py = Fin 0 \<rparr>, \<lparr> px = Fin 1, py = Fin 0 \<rparr>,
      \<lparr> px = Fin 1, py = Fin 1 \<rparr>, \<lparr> px = Fin 0, py = Fin 1 \<rparr>] = Inr True
   \<and> pointInPolygon \<lparr> px = Fin 2, py = Fin (1 / 2) \<rparr>
     [\<lparr> px = Fin 0, py = Fin 0 \<rparr>, \<lparr> px = Fin 1, py = Fin 0 \<rparr>,
      \<lparr> px = Fin 1, py = Fin 1 \<rparr>, \<lparr> px = Fin 0, py = Fin 1 \<rparr>] = Inr False"
  by (simp add: pointInPolygon_def pip_loop.simps element_at_def)

section \<open>Loading the map data: loadGeoData, loadCombinedMapData\<close>

datatype CityType = shanghai | hangzhou | huzhou | jiaxing | ningbo | shaoxing | zhoushan

text \<open>File names are the UTF-8 bytes of the source's literals.\<close>

fun cityFileMap :: "CityType \<Rightarrow> string" where
  "cityFileMap shanghai = ''shanghai.geoJson''"
| "cityFileMap hangzhou =
     [CHR 0xE6, CHR 0x9D, CHR 0xAD] @ [CHR 0xE5, CHR 0xB7, CHR 0x9E] @ [CHR 0xE5, CHR 0xB8, CHR 0x82] @ ''.geoJson''"
| "cityFileMap huzhou =
     [CHR 0xE6, CHR 0xB9, CHR 0x96] @ [CHR 0xE5, CHR 0xB7, CHR 0x9E] @ [CHR 0xE5, CHR 0xB8, CHR 0x82] @ ''.geoJson''"
| "cityFileMap jiaxing =
     [CHR 0xE5, CHR 0x98, CHR 0x89] @ [CHR 0xE5, CHR 0x85, CHR 0xB4] @ [CHR 0xE5, CHR 0xB8, CHR 0x82] @ ''.geoJson''"
| "cityFileMap ningbo =
     [CHR 0xE5, CHR 0xAE, CHR 0x81] @ [CHR 0xE6, CHR 0xB3, CHR 0xA2] @ [CHR 0xE5, CHR 0xB8, CHR 0x82] @ ''.geoJson''"
| "cityFileMap shaoxing =
     [CHR 0xE7, CHR 0xBB, CHR 0x8D] @ [CHR 0xE5, CHR 0x85, CHR 0xB4] @ [CHR 0xE5, CHR 0xB8, CHR 0x82] @ ''.geoJson''"
| "cityFileMap zhoushan =
     [CHR 0xE8, CHR 0x88, CHR 0x9F] @ [CHR 0xE5, CHR 0xB1, CHR 0xB1] @ [CHR 0xE5, CHR 0xB8, CHR 0x82] @ ''.geoJson''"

text \<open>
  The network is a function from the requested URL to what \<^verbatim>\<open>fetch\<close> settles with:
  \<open>None\<close> when it rejects, otherwise a response with its \<^verbatim>\<open>ok\<close> flag and its body
  parsed as JSON (\<open>None\<close> when \<^verbatim>\<open>response.json()\<close> rejects). The \<^verbatim>\<open>catch\<close> blocks
  log and rethrow, so the error that leaves a function is the one that entered the block.
\<close>

record 'a response =
  ok :: bool
  json :: "'a option"

datatype load_error = FetchRejected | Error string | JsonRejected

definition loadGeoData :: "(string \<Rightarrow> GeoData response option) \<Rightarrow> CityType \<Rightarrow> load_error + GeoData" where
  "loadGeoData fetch city =
     (let fileName = cityFileMap city
      in case fetch (''/data/'' @ fileName) of
           None \<Rightarrow> Inl FetchRejected
         | Some response \<Rightarrow>
             if \<not> ok response then Inl (Error (''Failed to load '' @ fileName))
             else (case json response of None \<Rightarrow> Inl JsonRejected | Some data \<Rightarrow> Inr data))"

subsection \<open>Promise.all\<close>

text \<open>
  \<^verbatim>\<open>Promise.all\<close> is the language's: it keeps an array of values and a count of the
  promises still pending. When promise \<open>k\<close> fulfils, its value is stored at index \<open>k\<close>
  and the count decremented, and at zero the result fulfils with the array; when a promise
  rejects, the result rejects with its reason; once the result is settled nothing changes
  it. The order in which the promises settle is the \<open>schedule\<close>, a list of indices; the
  result is \<open>None\<close> while it is pending.
\<close>

record 'a all_state =
  slots :: "'a option list"
  remaining :: nat
  settled :: "(load_error + 'a list) option"

definition settle :: "(load_error + 'a) list \<Rightarrow> nat \<Rightarrow> 'a all_state \<Rightarrow> 'a all_state" where
  "settle outcomes k st =
     (if settled st \<noteq> None \<or> length outcomes \<le> k then st
      else
        (case outcomes ! k of
           Inl reason \<Rightarrow> st \<lparr> settled := Some (Inl reason) \<rparr>
         | Inr v \<Rightarrow>
             (let st' = st \<lparr> slots := (slots st) [k := Some v], remaining := remaining st - 1 \<rparr>
              in if remaining st' = 0
                 then (case those (slots st') of
                         Some vs \<Rightarrow> st' \<lparr> settled := Some (Inr vs) \<rparr>
                       | None \<Rightarrow> st')
                 else st')))"

definition promise_all :: "(load_error + 'a) list \<Rightarrow> nat list \<Rightarrow> (load_error + 'a list) option" where
  "promise_all outcomes schedule =
     settled
       (fold (settle outcomes) schedule
          \<lparr> slots = replicate (length outcomes) None,
            remaining = length outcomes,
            settled = (if outcomes = [] then Some (Inr []) else None) \<rparr>)"

subsection \<open>loadCombinedMapData\<close>

text \<open>
  All seven loads are started before any is awaited; \<open>schedule\<close> is the order in which
  they settle. The record \<^verbatim>\<open>cities\<close> is filled by index from the array that
  \<^verbatim>\<open>Promise.all\<close> fulfils with, and \<^verbatim>\<open>flatMap\<close> concatenates the feature arrays.
\<close>

record combined_map_data =
  cities :: "CityType \<rightharpoonup> GeoData"
  combined :: GeoData

definition cityNames :: "CityType list" where
  "cityNames = [shanghai, hangzhou, huzhou, jiaxing, ningbo, shaoxing, zhoushan]"

definition loadCombinedMapData ::
  "(string \<Rightarrow> GeoData response option) \<Rightarrow> nat list \<Rightarrow> (load_error + combined_map_data) option" where
  "loadCombinedMapData fetch schedule =
     (case promise_all (map (\<lambda>city. loadGeoData fetch city) cityNames) schedule of
        None \<Rightarrow> None
      | Some (Inl e) \<Rightarrow> Some (Inl e)
      | Some (Inr cityDataArray) \<Rightarrow>
          (let cities' = fold (\<lambda>(city, index) acc. acc (city := element_at cityDataArray (int index)))
                           (zip cityNames [0 ..< length cityNames]) Map.empty;
               allFeatures = concat (map (\<lambda>cityData. features cityData) cityDataArray)
           in Some (Inr \<lparr> cities = cities',
                          combined = \<lparr> gdtype = ''FeatureCollection'', features = allFeatures \<rparr> \<rparr>)))"

text \<open>
  While fewer than all promises have fulfilled, the state holds the values of those that
  have and is pending; the last fulfilment settles the result with the values in index
  order. The first rejection settles it with an error.
\<close>

lemma those_map_Some: "those (map Some xs) = Some xs"
  by (induction xs) simp_all

definition partial_values :: "'a list \<Rightarrow> nat set \<Rightarrow> 'a option list" where
  "partial_values vs S = map (\<lambda>k. if k \<in> S then Some (vs ! k) else None) [0 ..< length vs]"

lemma partial_values_update:
  "k < length vs \<Longrightarrow> (partial_values vs S) [k := Some (vs ! k)] = partial_values vs (insert k S)"
  by (rule nth_equalityI) (auto simp: partial_values_def nth_list_update)

lemma partial_values_full: "{..< length vs} \<subseteq> S \<Longrightarrow> partial_values vs S = map Some vs"
  by (rule nth_equalityI) (auto simp: partial_values_def)

lemma settle_pending:
  assumes "k < length vs" "k \<notin> S" "finite S" "S \<subseteq> {..< length vs}" "card S + 1 < length vs"
  shows "settle (map Inr vs) k \<lparr> slots = partial_values vs S, remaining = length vs - card S, settled = None \<rparr>
         = \<lparr> slots = partial_values vs (insert k S), remaining = length vs - card (insert k S),
             settled = None \<rparr>"
  using assms by (simp add: settle_def Let_def partial_values_update)

lemma settle_last:
  assumes "k < length vs" "k \<notin> S" "finite S" "S \<subseteq> {..< length vs}" "card S + 1 = length vs"
  shows "settled (settle (map Inr vs) k
            \<lparr> slots = partial_values vs S, remaining = length vs - card S, settled = None \<rparr>)
         = Some (Inr vs)"
proof -
  have "card (insert k S) = card {..< length vs}" using assms by simp
  moreover have "insert k S \<subseteq> {..< length vs}" using assms by auto
  ultimately have "insert k S = {..< length vs}"
    by (simp add: card_subset_eq)
  then have "partial_values vs (insert k S) = map Some vs"
    by (simp add: partial_values_full)
  then show ?thesis
    using assms by (simp add: settle_def Let_def partial_values_update those_map_Some)
qed

lemma fold_settle_pending:
  assumes "distinct sched" "set sched \<inter> S = {}" "finite S" "set sched \<union> S \<subseteq> {..< length vs}"
    and "card S + length sched < length vs"
  shows "fold (settle (map Inr vs)) sched
           \<lparr> slots = partial_values vs S, remaining = length vs - card S, settled = None \<rparr>
         = \<lparr> slots = partial_values vs (S \<union> set sched),
             remaining = length vs - card (S \<union> set sched), settled = None \<rparr>"
  using assms
proof (induction sched arbitrary: S)
  case Nil
  then show ?case by simp
next
  case (Cons k ks)
  have 1: "settle (map Inr vs) k
             \<lparr> slots = partial_values vs S, remaining = length vs - card S, settled = None \<rparr>
           = \<lparr> slots = partial_values vs (insert k S), remaining = length vs - card (insert k S),
               settled = None \<rparr>"
    using Cons.prems by (intro settle_pending) auto
  have 2: "fold (settle (map Inr vs)) ks
             \<lparr> slots = partial_values vs (insert k S), remaining = length vs - card (insert k S),
               settled = None \<rparr>
           = \<lparr> slots = partial_values vs (insert k S \<union> set ks),
               remaining = length vs - card (insert k S \<union> set ks), settled = None \<rparr>"
    using Cons.prems by (intro Cons.IH) auto
  show ?case by (simp add: 1 2)
qed

lemma promise_all_fulfilled:
  assumes "distinct schedule" and "set schedule = {..< length vs}"
  shows "promise_all (map Inr vs) schedule = Some (Inr vs)"
proof (cases schedule rule: rev_cases)
  case Nil
  have "length schedule = length vs"
    using assms distinct_card [of schedule] by simp
  with Nil have "vs = []" by simp
  with Nil show ?thesis by (simp add: promise_all_def)
next
  case (snoc ks k)
  have len: "length schedule = length vs"
    using assms distinct_card [of schedule] by simp
  then have ne: "vs \<noteq> []" using snoc by auto
  have d: "distinct ks" "k \<notin> set ks"
    using assms(1) snoc by simp_all
  have sub: "set ks \<subseteq> {..< length vs}" "k < length vs"
    using assms(2) snoc by auto
  have c: "card (set ks) + 1 = length vs"
    using d(1) len snoc by (simp add: distinct_card)
  let ?st0 = "\<lparr> slots = partial_values vs {}, remaining = length vs - card ({} :: nat set),
                settled = (None :: (load_error + 'a list) option) \<rparr>"
  have init: "\<lparr> slots = replicate (length vs) None, remaining = length vs,
               settled = (if map Inr vs = [] then Some (Inr []) else None) \<rparr> = ?st0"
    using ne by (simp add: partial_values_def map_replicate_const)
  have pre: "fold (settle (map Inr vs)) ks ?st0
             = \<lparr> slots = partial_values vs ({} \<union> set ks),
                 remaining = length vs - card ({} \<union> set ks), settled = None \<rparr>"
    using d sub c by (intro fold_settle_pending) (simp_all add: distinct_card)
  have "promise_all (map Inr vs) schedule
        = settled (settle (map Inr vs) k (fold (settle (map Inr vs)) ks ?st0))"
    unfolding promise_all_def snoc using init by simp
  also have "\<dots> = Some (Inr vs)"
    unfolding pre using settle_last [OF sub(2) d(2) _ sub(1) c] by simp
  finally show ?thesis .
qed


lemma settle_settled: "settled st \<noteq> None \<Longrightarrow> settle outcomes k st = st"
  by (simp add: settle_def)

lemma fold_settle_settled: "settled st \<noteq> None \<Longrightarrow> fold (settle outcomes) ks st = st"
  by (induction ks) (simp_all add: settle_settled)

lemma settle_fulfilled_cong:
  assumes "k < length outcomes" and "outcomes ! k = Inr v"
  shows "settle outcomes k st = settle (map Inr (map projr outcomes)) k st"
  using assms by (simp add: settle_def)

lemma fold_settle_fulfilled_cong:
  assumes "\<forall>k \<in> set ks. k < length outcomes \<and> (\<exists>v. outcomes ! k = Inr v)"
  shows "fold (settle outcomes) ks st = fold (settle (map Inr (map projr outcomes))) ks st"
  using assms
proof (induction ks arbitrary: st)
  case Nil
  show ?case by simp
next
  case (Cons k ks)
  then obtain v where "k < length outcomes" "outcomes ! k = Inr v" by auto
  then have "settle outcomes k st = settle (map Inr (map projr outcomes)) k st"
    by (rule settle_fulfilled_cong)
  with Cons show ?case by simp
qed

lemma promise_all_rejected:
  assumes "distinct schedule" and "set schedule = {..< length outcomes}"
    and "k < length outcomes" and "outcomes ! k = Inl e"
  shows "\<exists>e'. promise_all outcomes schedule = Some (Inl e')"
proof -
  let ?P = "\<lambda>k. \<exists>e. outcomes ! k = Inl e"
  have "\<exists>k \<in> set schedule. ?P k" using assms by auto
  then obtain ks k' rest where sched: "schedule = ks @ k' # rest"
    and k': "?P k'" and ks: "\<forall>k \<in> set ks. \<not> ?P k"
    by (auto dest!: split_list_first_prop)
  from k' obtain e' where e': "outcomes ! k' = Inl e'" by auto
  let ?vs = "map projr outcomes"
  have len: "length schedule = length outcomes"
    using assms(1,2) distinct_card [of schedule] by simp
  have in_range: "\<forall>k \<in> set schedule. k < length outcomes"
    using assms(2) by auto
  have ne: "outcomes \<noteq> []" using assms(3) by auto
  have ful: "\<forall>k \<in> set ks. k < length outcomes \<and> (\<exists>v. outcomes ! k = Inr v)"
  proof
    fix k assume "k \<in> set ks"
    with ks in_range sched have "k < length outcomes" "\<not> ?P k" by auto
    then show "k < length outcomes \<and> (\<exists>v. outcomes ! k = Inr v)"
      by (cases "outcomes ! k") auto
  qed
  let ?st0 = "\<lparr> slots = partial_values ?vs {}, remaining = length ?vs - card ({} :: nat set),
                settled = (None :: (load_error + 'a list) option) \<rparr>"
  have init: "\<lparr> slots = replicate (length outcomes) None, remaining = length outcomes,
               settled = (if outcomes = [] then Some (Inr []) else None) \<rparr> = ?st0"
    using ne by (simp add: partial_values_def map_replicate_const)
  have pre: "fold (settle (map Inr ?vs)) ks ?st0
             = \<lparr> slots = partial_values ?vs ({} \<union> set ks),
                 remaining = length ?vs - card ({} \<union> set ks), settled = None \<rparr>"
    using assms(1) in_range len sched by (intro fold_settle_pending) auto
  have "fold (settle outcomes) schedule ?st0
        = fold (settle outcomes) rest (settle outcomes k' (fold (settle outcomes) ks ?st0))"
    by (simp add: sched)
  also have "fold (settle outcomes) ks ?st0 = fold (settle (map Inr ?vs)) ks ?st0"
    using ful by (rule fold_settle_fulfilled_cong)
  also have "settle outcomes k' (fold (settle (map Inr ?vs)) ks ?st0)
             = \<lparr> slots = partial_values ?vs ({} \<union> set ks),
                 remaining = length ?vs - card ({} \<union> set ks), settled = Some (Inl e') \<rparr>"
    unfolding pre using e' in_range sched by (simp add: settle_def)
  finally have "settled (fold (settle outcomes) schedule ?st0) = Some (Inl e')"
    by (simp add: fold_settle_settled)
  then show ?thesis
    unfolding promise_all_def init by blast
qed

text \<open>The claim's words: each city mapped to its own data, and the features in the fixed order.\<close>

definition spec_combined :: "(CityType \<Rightarrow> GeoData) \<Rightarrow> combined_map_data" where
  "spec_combined d =
     \<lparr> cities = (\<lambda>city. Some (d city)),
       combined =
         \<lparr> gdtype = ''FeatureCollection'',
           features =
             features (d shanghai) @ features (d hangzhou) @ features (d huzhou) @
             features (d jiaxing) @ features (d ningbo) @ features (d shaoxing) @
             features (d zhoushan) \<rparr> \<rparr>"

lemma loadCombinedMapData_fulfilled:
  assumes "distinct schedule" and "set schedule = {..< 7}"
    and "\<forall>city. loadGeoData fetch city = Inr (d city)"
  shows "loadCombinedMapData fetch schedule = Some (Inr (spec_combined d))"
proof -
  have o: "map (\<lambda>city. loadGeoData fetch city) cityNames = map Inr (map d cityNames)"
    using assms(3) by simp
  have "promise_all (map Inr (map d cityNames)) schedule = Some (Inr (map d cityNames))"
    using assms(1,2) by (intro promise_all_fulfilled) (simp_all add: cityNames_def)
  moreover have "(\<lambda>city. Some (d city))
      = fold (\<lambda>(city, index) acc. acc (city := element_at (map d cityNames) (int index)))
          (zip cityNames [0 ..< length cityNames]) Map.empty"
  proof
    fix city
    show "Some (d city)
      = fold (\<lambda>(city, index) acc. acc (city := element_at (map d cityNames) (int index)))
          (zip cityNames [0 ..< length cityNames]) Map.empty city"
      by (cases city) (simp_all add: cityNames_def element_at_def upt_rec)
  qed
  ultimately show ?thesis
    unfolding loadCombinedMapData_def o
    by (simp add: spec_combined_def Let_def) (simp add: cityNames_def)
qed

lemma loadCombinedMapData_needs_all:
  assumes "distinct schedule" and "set schedule = {..< 7}"
    and "loadCombinedMapData fetch schedule = Some (Inr r)"
  shows "\<exists>data. loadGeoData fetch city = Inr data"
proof (cases "loadGeoData fetch city")
  case (Inr data)
  then show ?thesis by simp
next
  case (Inl e)
  let ?outcomes = "map (\<lambda>city. loadGeoData fetch city) cityNames"
  have "city \<in> set cityNames" by (cases city) (simp_all add: cityNames_def)
  then obtain k where "k < length ?outcomes" "?outcomes ! k = loadGeoData fetch city"
    by (auto simp: in_set_conv_nth)
  with Inl have "\<exists>e'. promise_all ?outcomes schedule = Some (Inl e')"
    using assms(1,2) by (intro promise_all_rejected [where k = k and e = e]) (simp_all add: cityNames_def)
  with assms(3) show ?thesis
    by (auto simp: loadCombinedMapData_def)
qed

text \<open>
  Claim C7. Whatever the order in which the seven fetches settle, if every city's file
  loads then \<open>loadCombinedMapData\<close> fulfils with the cities record mapping each city to its
  own data and with the features of shanghai, hangzhou, huzhou, jiaxing, ningbo, shaoxing
  and zhoushan concatenated in this order; and it fulfils in no other case.
\<close>

theorem loadCombinedMapData_order:
  assumes "distinct schedule" and "set schedule = {..< 7}"
  shows "((\<forall>city. loadGeoData fetch city = Inr (d city))
            \<longrightarrow> loadCombinedMapData fetch schedule = Some (Inr (spec_combined d)))
       \<and> (loadCombinedMapData fetch schedule = Some (Inr r)
            \<longrightarrow> (\<exists>d'. (\<forall>city. loadGeoData fetch city = Inr (d' city)) \<and> r = spec_combined d'))"
proof (intro conjI impI)
  assume "\<forall>city. loadGeoData fetch city = Inr (d city)"
  with assms show "loadCombinedMapData fetch schedule = Some (Inr (spec_combined d))"
    by (rule loadCombinedMapData_fulfilled)
next
  assume r: "loadCombinedMapData fetch schedule = Some (Inr r)"
  define dd where "dd = (\<lambda>city. projr (loadGeoData fetch city))"
  have all: "\<forall>city. loadGeoData fetch city = Inr (dd city)"
  proof
    fix city
    from loadCombinedMapData_needs_all [OF assms r, of city]
    show "loadGeoData fetch city = Inr (dd city)" by (auto simp: dd_def)
  qed
  with assms have "loadCombinedMapData fetch schedule = Some (Inr (spec_combined dd))"
    by (rule loadCombinedMapData_fulfilled)
  with r have "r = spec_combined dd" by simp
  with all show "\<exists>d'. (\<forall>city. loadGeoData fetch city = Inr (d' city)) \<and> r = spec_combined d'"
    by blast
qed


theorem loadCombinedMapData_order_witness:
  "distinct [3, 0, 6, 1, 5, 2, 4 :: nat]
   \<and> set [3, 0, 6, 1, 5, 2, 4 :: nat] = {..< 7}
   \<and> (\<forall>city. loadGeoData
          (\<lambda>url. Some \<lparr> ok = True,
                      json = Some \<lparr> gdtype = ''FeatureCollection'',
                        features =
                          (if url = ''/data/shanghai.geoJson''
                           then [\<lparr> properties = \<lparr> adcode = Fin 310101, name = ''A'', center = None \<rparr>,
                                   geometry = Polygon [] \<rparr>]
                           else if url = ''/data/'' @ cityFileMap zhoushan
                           then [\<lparr> properties = \<lparr> adcode = Fin 330902, name = ''B'', center = None \<rparr>,
                                   geometry = MultiPolygon [] \<rparr>]
                           else []) \<rparr> \<rparr>) city
        = Inr ((\<lambda>city. \<lparr> gdtype = ''FeatureCollection'',
                 features =
                   (if city = shanghai
                    then [\<lparr> properties = \<lparr> adcode = Fin 310101, name = ''A'', center = None \<rparr>,
                            geometry = Polygon [] \<rparr>]
                    else if city = zhoushan
                    then [\<lparr> properties = \<lparr> adcode = Fin 330902, name = ''B'', center = None \<rparr>,
                            geometry = MultiPolygon [] \<rparr>]
                    else []) \<rparr>) city))
   \<and> loadCombinedMapData
          (\<lambda>url. Some \<lparr> ok = True,
                      json = Some \<lparr> gdtype = ''FeatureCollection'',
                        features =
                          (if url = ''/data/shanghai.geoJson''
                           then [\<lparr> properties = \<lparr> adcode = Fin 310101, name = ''A'', center = None \<rparr>,
                                   geometry = Polygon [] \<rparr>]
                           else if url = ''/data/'' @ cityFileMap zhoushan
                           then [\<lparr> properties = \<lparr> adcode = Fin 330902, name = ''B'', center = None \<rparr>,
                                   geometry = MultiPolygon [] \<rparr>]
                           else []) \<rparr> \<rparr>) [3, 0, 6, 1, 5, 2, 4]
        = Some (Inr (spec_combined (\<lambda>city. \<lparr> gdtype = ''FeatureCollection'',
                 features =
                   (if city = shanghai
                    then [\<lparr> properties = \<lparr> adcode = Fin 310101, name = ''A'', center = None \<rparr>,
                            geometry = Polygon [] \<rparr>]
                    else if city = zhoushan
                    then [\<lparr> properties = \<lparr> adcode = Fin 330902, name = ''B'', center = None \<rparr>,
                            geometry = MultiPolygon [] \<rparr>]
                    else []) \<rparr>)))
   \<and> features (combined (spec_combined (\<lambda>city. \<lparr> gdtype = ''FeatureCollection'',
                 features =
                   (if city = shanghai
                    then [\<lparr> properties = \<lparr> adcode = Fin 310101, name = ''A'', center = None \<rparr>,
                            geometry = Polygon [] \<rparr>]
                    else if city = zhoushan
                    then [\<lparr> properties = \<lparr> adcode = Fin 330902, name = ''B'', center = None \<rparr>,
                            geometry = MultiPolygon [] \<rparr>]
                    else []) \<rparr>)))
        = [\<lparr> properties = \<lparr> adcode = Fin 310101, name = ''A'', center = None \<rparr>,
             geometry = Polygon [] \<rparr>,
           \<lparr> properties = \<lparr> adcode = Fin 330902, name = ''B'', center = None \<rparr>,
             geometry = MultiPolygon [] \<rparr>]"
proof -
  let ?fetch = "(\<lambda>url. Some \<lparr> ok = True,
                      json = Some \<lparr> gdtype = ''FeatureCollection'',
                        features =
                          (if url = ''/data/shanghai.geoJson''
                           then [\<lparr> properties = \<lparr> adcode = Fin 310101, name = ''A'', center = None \<rparr>,
                                   geometry = Polygon [] \<rparr>]
                           else if url = ''/data/'' @ cityFileMap zhoushan
                           then [\<lparr> properties = \<lparr> adcode = Fin 330902, name = ''B'', center = None \<rparr>,
                                   geometry = MultiPolygon [] \<rparr>]
                           else []) \<rparr> \<rparr>)"
  let ?d = "(\<lambda>city. \<lparr> gdtype = ''FeatureCollection'',
                 features =
                   (if city = shanghai
                    then [\<lparr> properties = \<lparr> adcode = Fin 310101, name = ''A'', center = None \<rparr>,
                            geometry = Polygon [] \<rparr>]
                    else if city = zhoushan
                    then [\<lparr> properties = \<lparr> adcode = Fin 330902, name = ''B'', center = None \<rparr>,
                            geometry = MultiPolygon [] \<rparr>]
                    else []) \<rparr>)"
  have h1: "distinct [3, 0, 6, 1, 5, 2, 4 :: nat]" by simp
  have h2: "set [3, 0, 6, 1, 5, 2, 4 :: nat] = {..< 7}" by (auto simp: lessThan_nat_numeral lessThan_Suc)
  have h3: "\<forall>city. loadGeoData ?fetch city = Inr (?d city)"
  proof
    fix city
    show "loadGeoData ?fetch city = Inr (?d city)"
      by (cases city) (simp_all add: loadGeoData_def)
  qed
  have "loadCombinedMapData ?fetch [3, 0, 6, 1, 5, 2, 4] = Some (Inr (spec_combined ?d))"
    using loadCombinedMapData_order [OF h1 h2, where fetch = ?fetch and d = ?d] h3 by blast
  then show ?thesis
    using h1 h2 h3 by (simp add: spec_combined_def)
qed

section \<open>The search box: searchLocations\<close>

text \<open>
  The source's \<^verbatim>\<open>name\<close> field is \<open>sr_name\<close> here, and the state cell
  \<^verbatim>\<open>error\<close> is \<open>search_error\<close>: both names are taken by the map's records.
\<close>

record SearchResult =
  sr_name :: string
  latitude :: number
  longitude :: number
  country :: string
  admin1 :: "string option"
  admin2 :: "string option"

record SearchBox_state =
  query :: string
  results :: "SearchResult list"
  isSearching :: bool
  isLoadingWeather :: bool
  showResults :: bool
  search_error :: "string option"

text \<open>
  \<^verbatim>\<open>Array.prototype.sort\<close> with a comparison function is the language's. It is stable,
  and for a comparison function that orders the elements consistently its result is the
  one stable arrangement; the model is insertion sort, each element put before the first
  later element it does not compare greater than.
\<close>

fun insert_sorted :: "('a \<Rightarrow> 'a \<Rightarrow> int) \<Rightarrow> 'a \<Rightarrow> 'a list \<Rightarrow> 'a list" where
  "insert_sorted cmp x [] = [x]"
| "insert_sorted cmp x (y # ys) =
     (if cmp x y \<le> 0 then x # y # ys else y # insert_sorted cmp x ys)"

definition array_sort :: "('a \<Rightarrow> 'a \<Rightarrow> int) \<Rightarrow> 'a list \<Rightarrow> 'a list" where
  "array_sort cmp xs = foldr (insert_sorted cmp) xs []"

definition compareLocations :: "SearchResult \<Rightarrow> SearchResult \<Rightarrow> int" where
  "compareLocations a b =
     (let aIsTarget = (admin1 a = Some ''Shanghai'' \<or> admin1 a = Some ''Zhejiang'');
          bIsTarget = (admin1 b = Some ''Shanghai'' \<or> admin1 b = Some ''Zhejiang'')
      in if aIsTarget \<and> \<not> bIsTarget then - 1
         else if \<not> aIsTarget \<and> bIsTarget then 1
         else 0)"

definition msg_search_failed :: string where
  "msg_search_failed =
     [CHR 0xE6, CHR 0x90, CHR 0x9C] @ [CHR 0xE7, CHR 0xB4, CHR 0xA2] @ [CHR 0xE5, CHR 0xA4, CHR 0xB1] @
     [CHR 0xE8, CHR 0xB4, CHR 0xA5] @ [CHR 0xEF, CHR 0xBC, CHR 0x8C] @ [CHR 0xE8, CHR 0xAF, CHR 0xB7] @
     [CHR 0xE9, CHR 0x87, CHR 0x8D] @ [CHR 0xE8, CHR 0xAF, CHR 0x95]"

text \<open>
  \<open>trim\<close> is the language's \<^verbatim>\<open>String.prototype.trim\<close>, a parameter. \<open>outcome\<close> is what
  the geocoding request settles with: \<open>None\<close> when \<^verbatim>\<open>fetch\<close> rejects, otherwise the
  response, whose parsed body may or may not have a \<^verbatim>\<open>results\<close> field. Every failure
  ends in the \<^verbatim>\<open>catch\<close> block; \<^verbatim>\<open>finally\<close> clears \<^verbatim>\<open>isSearching\<close>.
\<close>

definition searchLocations ::
  "(string \<Rightarrow> string) \<Rightarrow> string \<Rightarrow> SearchResult list option response option
     \<Rightarrow> SearchBox_state \<Rightarrow> SearchBox_state" where
  "searchLocations trim searchQuery outcome s =
     (if trim searchQuery = [] then s \<lparr> results := [], showResults := False \<rparr>
      else
        (let s1 = s \<lparr> isSearching := True, search_error := None \<rparr>;
             failed = s1 \<lparr> search_error := Some msg_search_failed, results := [],
                          showResults := False, isSearching := False \<rparr>
         in case outcome of
              None \<Rightarrow> failed
            | Some response \<Rightarrow>
                if \<not> ok response then failed
                else
                  (case json response of
                     None \<Rightarrow> failed
                   | Some data \<Rightarrow>
                       (let locations = (case data of Some rs \<Rightarrow> rs | None \<Rightarrow> []);
                            filteredResults =
                              take 8 (array_sort compareLocations
                                (filter (\<lambda>location. country location = ''China'') locations))
                        in s1 \<lparr> results := filteredResults,
                                showResults := (length filteredResults > 0),
                                isSearching := False \<rparr>))))"

text \<open>
  The claim's words: the two-valued priority key, smaller first, and a stable sort by it
  (the library's \<open>sort_key\<close>).
\<close>

definition isTarget :: "SearchResult \<Rightarrow> bool" where
  "isTarget r = (admin1 r = Some ''Shanghai'' \<or> admin1 r = Some ''Zhejiang'')"

definition priority :: "SearchResult \<Rightarrow> nat" where
  "priority r = (if isTarget r then 0 else 1)"

lemma insert_sorted_priority: "insert_sorted compareLocations x ys = insort_key priority x ys"
  by (induction ys) (auto simp: compareLocations_def priority_def isTarget_def Let_def)

lemma array_sort_priority: "array_sort compareLocations xs = sort_key priority xs"
  by (induction xs) (simp_all add: array_sort_def sort_key_def insert_sorted_priority)

lemma insort_target:
  "isTarget x \<Longrightarrow> insort_key priority x ys = x # ys"
  by (cases ys) (simp_all add: priority_def)

lemma insort_other:
  assumes "\<not> isTarget x" and "\<forall>r \<in> set ts. isTarget r" and "\<forall>r \<in> set ns. \<not> isTarget r"
  shows "insort_key priority x (ts @ ns) = ts @ x # ns"
  using assms(2)
proof (induction ts)
  case Nil
  show ?case using assms(1,3) by (cases ns) (simp_all add: priority_def)
next
  case (Cons t ts)
  then have "isTarget t" by simp
  with assms(1) have "\<not> priority x \<le> priority t" by (simp add: priority_def)
  with Cons show ?case by simp
qed

lemma sort_key_partition:
  "sort_key priority xs = filter isTarget xs @ filter (\<lambda>r. \<not> isTarget r) xs"
proof (induction xs)
  case Nil
  show ?case by simp
next
  case (Cons x xs)
  show ?case
  proof (cases "isTarget x")
    case True
    with Cons show ?thesis by (simp add: sort_key_def insort_target)
  next
    case False
    have "insort_key priority x (filter isTarget xs @ filter (\<lambda>r. \<not> isTarget r) xs)
          = filter isTarget xs @ x # filter (\<lambda>r. \<not> isTarget r) xs"
      using False by (intro insort_other) simp_all
    with Cons False show ?thesis by (simp add: sort_key_def)
  qed
qed


lemma take_partition_order:
  assumes "\<forall>r \<in> set ts. P r" and "\<forall>r \<in> set ns. \<not> P r"
    and "i < length (take n (ts @ ns))" and "j < length (take n (ts @ ns))"
    and "P (take n (ts @ ns) ! i)" and "\<not> P (take n (ts @ ns) ! j)"
  shows "i < j"
proof -
  have nth: "take n (ts @ ns) ! k = (ts @ ns) ! k" and len: "k < length ts + length ns"
    if "k < length (take n (ts @ ns))" for k
    using that by (simp_all del: take_append)
  from assms(3,5) have i: "i < length ts + length ns" "P ((ts @ ns) ! i)"
    using nth [of i] len [of i] by simp_all
  from assms(4,6) have j: "j < length ts + length ns" "\<not> P ((ts @ ns) ! j)"
    using nth [of j] len [of j] by simp_all
  have "i < length ts"
  proof (rule ccontr)
    assume "\<not> i < length ts"
    with i have "P (ns ! (i - length ts))" "i - length ts < length ns"
      by (simp_all add: nth_append)
    with assms(2) show False using nth_mem by blast
  qed
  moreover have "\<not> j < length ts"
  proof
    assume "j < length ts"
    with j have "\<not> P (ts ! j)" by (simp add: nth_append)
    with assms(1) \<open>j < length ts\<close> show False using nth_mem by blast
  qed
  ultimately show ?thesis by simp
qed

text \<open>
  Claim C10. After a successful geocoding response to a query that is not blank, the result
  list is the locations in China, stably sorted by the priority key and cut to eight: every
  entry has country \<open>China\<close>, there are at most eight, and every entry whose \<open>admin1\<close>
  is Shanghai or Zhejiang stands before every entry whose \<open>admin1\<close> is neither.
\<close>

theorem searchLocations_results:
  assumes "trim searchQuery \<noteq> []"
  shows "let s' = searchLocations trim searchQuery (Some \<lparr> ok = True, json = Some data \<rparr>) s;
             china = filter (\<lambda>location. country location = ''China'')
                       (case data of Some rs \<Rightarrow> rs | None \<Rightarrow> [])
         in results s' = take 8 (sort_key priority china)
          \<and> (\<forall>r \<in> set (results s'). country r = ''China'')
          \<and> length (results s') \<le> 8
          \<and> (\<forall>i j. i < length (results s') \<and> j < length (results s')
                 \<and> isTarget (results s' ! i) \<and> \<not> isTarget (results s' ! j) \<longrightarrow> i < j)"
proof -
  define china where "china = filter (\<lambda>location. country location = ''China'')
                       (case data of Some rs \<Rightarrow> rs | None \<Rightarrow> [])"
  define rs where "rs = take 8 (sort_key priority china)"
  have res: "results (searchLocations trim searchQuery (Some \<lparr> ok = True, json = Some data \<rparr>) s) = rs"
    using assms by (simp add: searchLocations_def Let_def array_sort_priority rs_def china_def)
  have part: "rs = take 8 (filter isTarget china @ filter (\<lambda>r. \<not> isTarget r) china)"
    by (simp add: rs_def sort_key_partition)
  have "set rs \<subseteq> set china"
    unfolding rs_def using set_take_subset [of 8 "sort_key priority china"] by simp
  then have 1: "\<forall>r \<in> set rs. country r = ''China''"
    by (auto simp: china_def)
  have 2: "length rs \<le> 8" by (simp add: rs_def)
  have 3: "i < j" if "i < length rs" "j < length rs" "isTarget (rs ! i)" "\<not> isTarget (rs ! j)" for i j
  proof -
    have a: "\<forall>r \<in> set (filter isTarget china). isTarget r" by simp
    have b: "\<forall>r \<in> set (filter (\<lambda>r. \<not> isTarget r) china). \<not> isTarget r" by simp
    from that show "i < j"
      unfolding part by (rule take_partition_order [OF a b])
  qed
  have 4: "\<forall>i j. i < length rs \<and> j < length rs \<and> isTarget (rs ! i) \<and> \<not> isTarget (rs ! j) \<longrightarrow> i < j"
    using 3 by blast
  show ?thesis
    unfolding Let_def res china_def [symmetric]
    using 1 2 4 rs_def by (intro conjI)
qed


theorem searchLocations_results_witness:
  "(\<lambda>s. rev (dropWhile (\<lambda>c. c = CHR '' '') (rev (dropWhile (\<lambda>c. c = CHR '' '') s)))) ''  ning '' \<noteq> []
   \<and> results (searchLocations (\<lambda>s. rev (dropWhile (\<lambda>c. c = CHR '' '') (rev (dropWhile (\<lambda>c. c = CHR '' '') s)))) ''  ning ''
        (Some \<lparr> ok = True, json = Some (Some [\<lparr> sr_name = ''Suzhou'', latitude = Fin 30, longitude = Fin 120, country = ''China'', admin1 = Some ''Jiangsu'', admin2 = None \<rparr>,
           \<lparr> sr_name = ''Osaka'', latitude = Fin 30, longitude = Fin 120, country = ''Japan'', admin1 = Some ''Osaka'', admin2 = None \<rparr>,
           \<lparr> sr_name = ''Ningbo'', latitude = Fin 30, longitude = Fin 120, country = ''China'', admin1 = Some ''Zhejiang'', admin2 = None \<rparr>,
           \<lparr> sr_name = ''Xi'', latitude = Fin 30, longitude = Fin 120, country = ''China'', admin1 = None, admin2 = None \<rparr>,
           \<lparr> sr_name = ''Pudong'', latitude = Fin 30, longitude = Fin 120, country = ''China'', admin1 = Some ''Shanghai'', admin2 = None \<rparr>]) \<rparr>)
        \<lparr> query = ''  ning '', results = [], isSearching = False, isLoadingWeather = False,
          showResults = False, search_error = None \<rparr>)
     = [\<lparr> sr_name = ''Ningbo'', latitude = Fin 30, longitude = Fin 120, country = ''China'', admin1 = Some ''Zhejiang'', admin2 = None \<rparr>,
        \<lparr> sr_name = ''Pudong'', latitude = Fin 30, longitude = Fin 120, country = ''China'', admin1 = Some ''Shanghai'', admin2 = None \<rparr>,
        \<lparr> sr_name = ''Suzhou'', latitude = Fin 30, longitude = Fin 120, country = ''China'', admin1 = Some ''Jiangsu'', admin2 = None \<rparr>,
        \<lparr> sr_name = ''Xi'', latitude = Fin 30, longitude = Fin 120, country = ''China'', admin1 = None, admin2 = None \<rparr>]"
proof -
  let ?trim = "(\<lambda>s. rev (dropWhile (\<lambda>c. c = CHR '' '') (rev (dropWhile (\<lambda>c. c = CHR '' '') s))))"
  let ?data = "Some [\<lparr> sr_name = ''Suzhou'', latitude = Fin 30, longitude = Fin 120, country = ''China'', admin1 = Some ''Jiangsu'', admin2 = None \<rparr>,
           \<lparr> sr_name = ''Osaka'', latitude = Fin 30, longitude = Fin 120, country = ''Japan'', admin1 = Some ''Osaka'', admin2 = None \<rparr>,
           \<lparr> sr_name = ''Ningbo'', latitude = Fin 30, longitude = Fin 120, country = ''China'', admin1 = Some ''Zhejiang'', admin2 = None \<rparr>,
           \<lparr> sr_name = ''Xi'', latitude = Fin 30, longitude = Fin 120, country = ''China'', admin1 = None, admin2 = None \<rparr>,
           \<lparr> sr_name = ''Pudong'', latitude = Fin 30, longitude = Fin 120, country = ''China'', admin1 = Some ''Shanghai'', admin2 = None \<rparr>]"
  let ?s = "\<lparr> query = ''  ning '', results = [], isSearching = False, isLoadingWeather = False,
          showResults = False, search_error = None \<rparr>"
  have h: "?trim ''  ning '' \<noteq> []" by simp
  have "results (searchLocations ?trim ''  ning '' (Some \<lparr> ok = True, json = Some ?data \<rparr>) ?s)
        = take 8 (sort_key priority (filter (\<lambda>location. country location = ''China'')
                   (case ?data of Some rs \<Rightarrow> rs | None \<Rightarrow> [])))"
    using searchLocations_results [where trim = ?trim and searchQuery = "''  ning ''"
        and data = ?data and s = ?s, OF h]
    unfolding Let_def by (rule conjunct1)
  also have "\<dots> = [\<lparr> sr_name = ''Ningbo'', latitude = Fin 30, longitude = Fin 120, country = ''China'', admin1 = Some ''Zhejiang'', admin2 = None \<rparr>,
        \<lparr> sr_name = ''Pudong'', latitude = Fin 30, longitude = Fin 120, country = ''China'', admin1 = Some ''Shanghai'', admin2 = None \<rparr>,
        \<lparr> sr_name = ''Suzhou'', latitude = Fin 30, longitude = Fin 120, country = ''China'', admin1 = Some ''Jiangsu'', admin2 = None \<rparr>,
        \<lparr> sr_name = ''Xi'', latitude = Fin 30, longitude = Fin 120, country = ''China'', admin1 = None, admin2 = None \<rparr>]"
    by (simp add: priority_def isTarget_def)
  finally show ?thesis using h by simp
qed

end
